theory Spec2Isabelle
  imports Complex_Main
begin

section \<open>Python values used by \<open>server.py\<close>\<close>

text \<open>
  A Python \<open>str\<close> is a sequence of Unicode code points, so it is modelled as a list of
  natural numbers; \<open>ascii\<close> embeds an ASCII literal of the source.
\<close>

type_synonym pystr = "nat list"

definition ascii :: "string \<Rightarrow> pystr" where
  "ascii s = map of_char s"

text \<open>
  \<open>str.startswith(prefix)\<close> and \<open>str.strip()\<close>. Without an argument \<open>strip\<close> removes the
  characters for which \<open>str.isspace\<close> holds from both ends: U+0009..U+000D, U+001C..U+0020,
  U+0085, U+00A0, U+1680, U+2000..U+200A, U+2028, U+2029, U+202F, U+205F and U+3000.
\<close>

definition startswith :: "pystr \<Rightarrow> pystr \<Rightarrow> bool" where
  "startswith s p = (take (length p) s = p)"

definition isspace :: "nat \<Rightarrow> bool" where
  "isspace c =
     ((9 \<le> c \<and> c \<le> 13) \<or> (28 \<le> c \<and> c \<le> 32) \<or> c = 133 \<or> c = 160 \<or> c = 5760 \<or>
      (8192 \<le> c \<and> c \<le> 8202) \<or> c = 8232 \<or> c = 8233 \<or> c = 8239 \<or> c = 8287 \<or> c = 12288)"

definition strip :: "pystr \<Rightarrow> pystr" where
  "strip s = rev (dropWhile isspace (rev (dropWhile isspace s)))"

text \<open>
  The body of a request, as \<open>request.json\<close> hands it to the handler: \<open>None\<close>, \<open>bool\<close>,
  \<open>int\<close>, \<open>float\<close>, \<open>str\<close>, \<open>list\<close> or \<open>dict\<close>. Of a float only its being zero is ever
  looked at (by \<open>not\<close>), so a finite float is its rational value.
\<close>

datatype pyfloat = FFinite rat | FInf bool | FNaN

datatype json =
    JNull
  | JBool bool
  | JInt int
  | JFloat pyfloat
  | JString pystr
  | JArray "json list"
  | JObject "(pystr \<times> json) list"

text \<open>Python truth value testing, which \<open>not user_input\<close> negates.\<close>

fun float_truthy :: "pyfloat \<Rightarrow> bool" where
  "float_truthy (FFinite q) = (q \<noteq> 0)"
| "float_truthy (FInf _) = True"
| "float_truthy FNaN = True"

fun truthy :: "json \<Rightarrow> bool" where
  "truthy JNull = False"
| "truthy (JBool b) = b"
| "truthy (JInt i) = (i \<noteq> 0)"
| "truthy (JFloat f) = float_truthy f"
| "truthy (JString s) = (s \<noteq> [])"
| "truthy (JArray xs) = (xs \<noteq> [])"
| "truthy (JObject kvs) = (kvs \<noteq> [])"

text \<open>
  \<open>data.get('message')\<close>: only a \<open>dict\<close> has \<open>get\<close>, which yields \<open>None\<close> for a missing key;
  on any other value the attribute lookup raises \<open>AttributeError\<close>.
\<close>

datatype exn = AttributeError

definition dict_get :: "json \<Rightarrow> pystr \<Rightarrow> exn + json" where
  "dict_get data k =
     (case data of
        JObject kvs \<Rightarrow> Inr (case map_of kvs k of None \<Rightarrow> JNull | Some v \<Rightarrow> v)
      | _ \<Rightarrow> Inl AttributeError)"

section \<open>The transcript\<close>

datatype role = System | User | Assistant

text \<open>
  The \<open>content\<close> of a message is a string, or the two-part list built for an image link:
  \<open>{"type": "text", "text": t}\<close> and \<open>{"type": "image_url", "image_url": {"url": u}}\<close>.
\<close>

datatype part = TextPart pystr | ImageUrlPart pystr

datatype content = Text pystr | Parts "part list"

record message =
  role :: role
  content :: content

text \<open>The persona string of the system message and the fixed question about an image.\<close>

definition system_prompt :: pystr where
  "system_prompt =
     [1571, 1606, 1578, 32, 1589, 1583, 1610, 1602, 32, 1584, 1603, 1610, 32, 1578, 1578,
      1581, 1583, 1579, 32, 1575, 1604, 1593, 1585, 1576, 1610, 1577, 32, 1608, 1578, 1581,
      1576, 32, 1571, 1606, 32, 1578, 1588, 1585, 1581, 32, 1576, 1576, 1587, 1575, 1591,
      1577, 32, 1608, 1603, 1571, 1606, 1603, 32, 1578, 1578, 1581, 1583, 1579, 32, 1605,
      1593, 32, 1589, 1583, 1610, 1602, 1548, 32, 1576, 1573, 1580, 1575, 1576, 1575, 1578,
      32, 1602, 1589, 1610, 1585, 1577, 32, 1608, 1608, 1575, 1590, 1581, 1577, 32, 1608,
      1587, 1585, 1610, 1593, 1577, 46]"

definition image_prompt :: pystr where
  "image_prompt =
     [1605, 1575, 32, 1605, 1581, 1578, 1608, 1609, 32, 1607, 1584, 1607, 32, 1575, 1604,
      1589, 1608, 1585, 1577, 1567]"

definition initial_messages :: "message list" where
  "initial_messages = [\<lparr>role = System, content = Text system_prompt\<rparr>]"

text \<open>
  Lines 159 to 165: a string that starts with \<open>http\<close> becomes the two-part image content,
  any other string is used as it is.
\<close>

definition classify :: "pystr \<Rightarrow> content" where
  "classify user_input =
     (if startswith user_input (ascii ''http'')
      then Parts [TextPart image_prompt, ImageUrlPart user_input]
      else Text user_input)"

text \<open>
  The slice \<open>xs[-n:]\<close> for positive \<open>n\<close> (the whole list when it is shorter than \<open>n\<close>), and
  the trim of lines 171 and 172: \<open>if len(messages) > 6: messages = [messages[0]] + messages[-5:]\<close>.
\<close>

definition slice_last :: "nat \<Rightarrow> 'a list \<Rightarrow> 'a list" where
  "slice_last n xs = drop (length xs - n) xs"

definition trim :: "message list \<Rightarrow> message list" where
  "trim msgs = (if length msgs > 6 then [msgs ! 0] @ slice_last 5 msgs else msgs)"

definition append_user :: "message list \<Rightarrow> content \<Rightarrow> message list" where
  "append_user msgs c = msgs @ [\<lparr>role = User, content = c\<rparr>]"

section \<open>The completion service\<close>

text \<open>
  \<open>client.chat.completions.create\<close> either raises an exception \<open>e\<close> (kept as \<open>str(e)\<close>) or
  returns a response, of which the handler reads \<open>choices[0].message.content\<close>. The field
  \<open>choices\<close> may be \<open>None\<close> or empty and a \<open>content\<close> may be \<open>None\<close>; each of these makes
  the expression of line 183 raise inside the \<open>try\<close>.
\<close>

datatype completion = Raises pystr | Returns "pystr option list option"

definition reply_text :: "pystr option list option \<Rightarrow> pystr + pystr" where
  "reply_text choices =
     (case choices of
        None \<Rightarrow> Inl (39 # ascii ''NoneType'' @ 39 # ascii '' object is not subscriptable'')
      | Some [] \<Rightarrow> Inl (ascii ''list index out of range'')
      | Some (None # _) \<Rightarrow> Inl (39 # ascii ''NoneType'' @ 39 # ascii '' object has no attribute '' @
                             39 # ascii ''strip'' @ [39])
      | Some (Some t # _) \<Rightarrow> Inr (strip t))"

text \<open>
  What the \<open>try\<close> block of lines 174 to 183 computes from the service's behaviour:
  \<open>Inr bot_reply\<close>, or \<open>Inl (str e)\<close> for the exception that \<open>except Exception as e\<close> catches.
\<close>

definition try_reply :: "completion \<Rightarrow> pystr + pystr" where
  "try_reply c = (case c of Raises e \<Rightarrow> Inl e | Returns choices \<Rightarrow> reply_text choices)"

text \<open>Stand-ins for the service: one always answers with the text \<open>t\<close>, one always raises.\<close>

definition mock_reply :: "pystr \<Rightarrow> message list \<Rightarrow> completion" where
  "mock_reply t msgs = Returns (Some [Some t])"

definition mock_error :: "pystr \<Rightarrow> message list \<Rightarrow> completion" where
  "mock_error e msgs = Raises e"

text \<open>A stand-in that always returns a response with the given \<open>choices\<close>, well formed or not.\<close>

definition mock_response :: "pystr option list option \<Rightarrow> message list \<Rightarrow> completion" where
  "mock_response choices msgs = Returns choices"

section \<open>The handler\<close>

text \<open>
  A response is \<open>jsonify\<close> of a one-key dictionary with a status code; an exception that
  leaves \<open>chat\<close> is reported as such. The result of one invocation holds the response, the
  value of the global \<open>messages\<close> afterwards, and the \<open>messages\<close> arguments of the calls
  made to the completion service, in order.
\<close>

datatype body = Reply pystr | Error pystr

datatype outcome = Http body nat | Unhandled exn

record result =
  response :: outcome
  messages :: "message list"
  calls :: "message list list"

definition chat :: "(message list \<Rightarrow> completion) \<Rightarrow> json \<Rightarrow> message list \<Rightarrow> result" where
  "chat create data msgs =
     (case dict_get data (ascii ''message'') of
        Inl e \<Rightarrow> \<lparr>response = Unhandled e, messages = msgs, calls = []\<rparr>
      | Inr user_input \<Rightarrow>
          if \<not> truthy user_input
          then \<lparr>response = Http (Error (ascii ''No message provided'')) 400,
                messages = msgs, calls = []\<rparr>
          else
            (case user_input of
               JString s \<Rightarrow>
                 (let msgs1 = append_user msgs (classify s);
                      msgs2 = trim msgs1
                  in case try_reply (create msgs2) of
                       Inl e \<Rightarrow>
                         \<lparr>response = Http (Error e) 500, messages = msgs2, calls = [msgs2]\<rparr>
                     | Inr bot_reply \<Rightarrow>
                         \<lparr>response = Http (Reply bot_reply) 200,
                          messages = msgs2 @ [\<lparr>role = Assistant, content = Text bot_reply\<rparr>],
                          calls = [msgs2]\<rparr>)
             | _ \<Rightarrow> \<lparr>response = Unhandled AttributeError, messages = msgs, calls = []\<rparr>))"

text \<open>
  A run of the server: the requests arrive one after the other, each with the behaviour
  of the completion service during it.
\<close>

type_synonym request = "(message list \<Rightarrow> completion) \<times> json"

fun run :: "request list \<Rightarrow> message list \<Rightarrow> message list" where
  "run [] msgs = msgs"
| "run ((create, data) # rs) msgs = run rs (messages (chat create data msgs))"

fun run_calls :: "request list \<Rightarrow> message list \<Rightarrow> message list list" where
  "run_calls [] msgs = []"
| "run_calls ((create, data) # rs) msgs =
     calls (chat create data msgs) @ run_calls rs (messages (chat create data msgs))"

fun run_responses :: "request list \<Rightarrow> message list \<Rightarrow> outcome list" where
  "run_responses [] msgs = []"
| "run_responses ((create, data) # rs) msgs =
     response (chat create data msgs) # run_responses rs (messages (chat create data msgs))"

text \<open>An example request: the message \<open>hi\<close>, answered by the service with \<open>ok\<close>.\<close>

definition hi_request :: request where
  "hi_request = (mock_reply (ascii ''ok''), JObject [(ascii ''message'', JString (ascii ''hi''))])"

section \<open>Properties\<close>

lemma ascii_simps [simp]:
  "ascii [] = []"
  "ascii (c # cs) = of_char c # ascii cs"
  by (simp_all add: ascii_def)

subsection \<open>The trim step\<close>

lemma length_trim: "length (trim msgs) = (if length msgs > 6 then 6 else length msgs)"
  by (simp add: trim_def slice_last_def)

lemma trim_short: "length msgs \<le> 6 \<Longrightarrow> trim msgs = msgs"
  by (simp add: trim_def)

lemma trim_long: "length msgs > 6 \<Longrightarrow> trim msgs = hd msgs # drop (length msgs - 5) msgs"
  by (cases msgs) (simp_all add: trim_def slice_last_def)

lemma trim_Nil_iff: "trim msgs = [] \<longleftrightarrow> msgs = []"
  by (auto simp add: trim_def)

lemma hd_trim: "msgs \<noteq> [] \<Longrightarrow> hd (trim msgs) = hd msgs"
  by (simp add: trim_def hd_conv_nth)

lemma last_trim: "msgs \<noteq> [] \<Longrightarrow> last (trim msgs) = last msgs"
  by (simp add: trim_def slice_last_def)

subsection \<open>\<open>strip\<close> removes exactly the white space at both ends\<close>

lemma strip_decomp:
  "\<exists>l r. t = l @ strip t @ r \<and> (\<forall>c\<in>set l. isspace c) \<and> (\<forall>c\<in>set r. isspace c)"
proof -
  define u where "u = dropWhile isspace t"
  define l where "l = takeWhile isspace t"
  define r where "r = rev (takeWhile isspace (rev u))"
  have t: "t = l @ u"
    by (simp add: l_def u_def)
  have "rev (dropWhile isspace (rev u)) @ rev (takeWhile isspace (rev u)) =
        rev (takeWhile isspace (rev u) @ dropWhile isspace (rev u))"
    by (simp only: rev_append)
  also have "\<dots> = u"
    by (simp only: takeWhile_dropWhile_id rev_rev_ident)
  finally have u: "u = strip t @ r"
    by (simp add: strip_def r_def u_def)
  have sl: "\<forall>c\<in>set l. isspace c"
    by (auto simp: l_def dest: set_takeWhileD)
  have sr: "\<forall>c\<in>set r. isspace c"
    by (auto simp: r_def dest: set_takeWhileD)
  from t u have "t = l @ strip t @ r" by simp
  with sl sr show ?thesis by blast
qed

lemma strip_ends:
  assumes ne: "strip t \<noteq> []"
  shows "\<not> isspace (hd (strip t)) \<and> \<not> isspace (last (strip t))"
proof -
  define u where "u = dropWhile isspace t"
  define v where "v = dropWhile isspace (rev u)"
  have s: "strip t = rev v" by (simp add: strip_def v_def u_def)
  have v: "v \<noteq> []" using ne s by simp
  then have hv: "\<not> isspace (hd v)" unfolding v_def by (rule hd_dropWhile)
  have u: "u \<noteq> []" using v by (auto simp: v_def)
  then have hu: "\<not> isspace (hd u)" unfolding u_def by (rule hd_dropWhile)
  have "rev u = takeWhile isspace (rev u) @ v" by (simp add: v_def)
  then have "last (rev u) = last v" using v by (metis last_appendR)
  then have "hd u = last v" using u by (simp add: last_rev)
  then have "hd (strip t) = hd u" using v s by (simp add: hd_rev)
  moreover have "last (strip t) = hd v" using v s by (simp add: last_rev)
  ultimately show ?thesis using hu hv by simp
qed

subsection \<open>The handler, case by case\<close>

lemma chat_falsy:
  "dict_get data (ascii ''message'') = Inr v \<Longrightarrow> \<not> truthy v \<Longrightarrow>
   chat create data msgs =
     \<lparr>response = Http (Error (ascii ''No message provided'')) 400, messages = msgs, calls = []\<rparr>"
  by (simp add: chat_def)

lemma chat_not_str:
  "dict_get data (ascii ''message'') = Inr v \<Longrightarrow> truthy v \<Longrightarrow> \<forall>s. v \<noteq> JString s \<Longrightarrow>
   chat create data msgs = \<lparr>response = Unhandled AttributeError, messages = msgs, calls = []\<rparr>"
  by (cases v) (simp_all add: chat_def)

lemma chat_failure:
  "dict_get data (ascii ''message'') = Inr (JString s) \<Longrightarrow> s \<noteq> [] \<Longrightarrow>
   try_reply (create (trim (append_user msgs (classify s)))) = Inl e \<Longrightarrow>
   chat create data msgs =
     \<lparr>response = Http (Error e) 500, messages = trim (append_user msgs (classify s)),
      calls = [trim (append_user msgs (classify s))]\<rparr>"
  by (simp add: chat_def Let_def)

lemma chat_success:
  "dict_get data (ascii ''message'') = Inr (JString s) \<Longrightarrow> s \<noteq> [] \<Longrightarrow>
   try_reply (create (trim (append_user msgs (classify s)))) = Inr t \<Longrightarrow>
   chat create data msgs =
     \<lparr>response = Http (Reply t) 200,
      messages = trim (append_user msgs (classify s)) @ [\<lparr>role = Assistant, content = Text t\<rparr>],
      calls = [trim (append_user msgs (classify s))]\<rparr>"
  by (simp add: chat_def Let_def)

text \<open>A body that is not a dictionary has no \<open>get\<close>: the handler leaves by the exception.\<close>

lemma chat_not_dict:
  "\<forall>kvs. data \<noteq> JObject kvs \<Longrightarrow>
   chat create data msgs = \<lparr>response = Unhandled AttributeError, messages = msgs, calls = []\<rparr>"
  by (cases data) (simp_all add: chat_def dict_get_def del: ascii_simps)

text \<open>
  The \<open>try\<close> block on each behaviour of the service; it yields a reply only for a response
  whose first choice has a text.
\<close>

lemma try_reply_cases:
  "try_reply (Raises e) = Inl e"
  "try_reply (Returns None) =
     Inl (39 # ascii ''NoneType'' @ 39 # ascii '' object is not subscriptable'')"
  "try_reply (Returns (Some [])) = Inl (ascii ''list index out of range'')"
  "try_reply (Returns (Some (None # rest))) =
     Inl (39 # ascii ''NoneType'' @ 39 # ascii '' object has no attribute '' @
          39 # ascii ''strip'' @ [39])"
  "try_reply (Returns (Some (Some t # rest))) = Inr (strip t)"
  by (simp_all add: try_reply_def reply_text_def del: ascii_simps)

lemma try_reply_no_text:
  assumes "\<forall>t rest. c \<noteq> Returns (Some (Some t # rest))"
  shows "\<exists>d. try_reply c = Inl d"
proof (cases c)
  case (Raises e)
  then show ?thesis by (simp add: try_reply_cases)
next
  case (Returns choices)
  show ?thesis
  proof (cases choices)
    case None
    with Returns show ?thesis by (simp add: try_reply_cases del: ascii_simps)
  next
    case (Some cs)
    show ?thesis
    proof (cases cs)
      case Nil
      with Returns Some show ?thesis by (simp add: try_reply_cases del: ascii_simps)
    next
      case (Cons x xs)
      with Returns Some assms obtain "x = None" by (cases x) auto
      with Returns Some Cons show ?thesis by (simp add: try_reply_cases del: ascii_simps)
    qed
  qed
qed

text \<open>Whatever the request, a call is made only for a non-empty string, with the trimmed transcript.\<close>

lemma chat_calls:
  "m \<in> set (calls (chat create data msgs)) \<Longrightarrow>
   \<exists>s. dict_get data (ascii ''message'') = Inr (JString s) \<and> s \<noteq> [] \<and>
       m = trim (append_user msgs (classify s))"
  by (auto simp add: chat_def Let_def split: sum.splits json.splits if_splits)

lemma chat_messages:
  "messages (chat create data msgs) = msgs \<or>
   (\<exists>s. messages (chat create data msgs) = trim (append_user msgs (classify s))) \<or>
   (\<exists>s t. messages (chat create data msgs) =
      trim (append_user msgs (classify s)) @ [\<lparr>role = Assistant, content = Text t\<rparr>])"
  by (auto simp add: chat_def Let_def split: sum.splits json.splits if_splits)

lemma append_user_props:
  "append_user msgs c \<noteq> []"
  "last (append_user msgs c) = \<lparr>role = User, content = c\<rparr>"
  "length (append_user msgs c) = Suc (length msgs)"
  "msgs \<noteq> [] \<Longrightarrow> hd (append_user msgs c) = hd msgs"
  by (simp_all add: append_user_def)

text \<open>The first message survives every invocation.\<close>

lemma chat_keeps_head:
  assumes "msgs \<noteq> []"
  shows "messages (chat create data msgs) \<noteq> [] \<and> hd (messages (chat create data msgs)) = hd msgs"
proof -
  have a: "trim (append_user msgs c) \<noteq> [] \<and> hd (trim (append_user msgs c)) = hd msgs" for c
    using assms by (simp add: trim_Nil_iff hd_trim append_user_props)
  from chat_messages [of create data msgs] show ?thesis
    using assms a by (elim disjE exE) (simp_all add: hd_append)
qed

lemma run_keeps_head:
  "msgs \<noteq> [] \<Longrightarrow> run rs msgs \<noteq> [] \<and> hd (run rs msgs) = hd msgs"
proof (induction rs arbitrary: msgs)
  case Nil
  then show ?case by simp
next
  case (Cons r rs)
  obtain create data where r: "r = (create, data)" by (cases r)
  from Cons.prems have "messages (chat create data msgs) \<noteq> []"
    and "hd (messages (chat create data msgs)) = hd msgs"
    using chat_keeps_head by blast+
  with Cons.IH [of "messages (chat create data msgs)"] r show ?case by simp
qed

lemma run_calls_props:
  "msgs \<noteq> [] \<Longrightarrow> m \<in> set (run_calls rs msgs) \<Longrightarrow>
   2 \<le> length m \<and> length m \<le> 6 \<and> hd m = hd msgs"
proof (induction rs arbitrary: msgs)
  case Nil
  then show ?case by simp
next
  case (Cons r rs)
  obtain create data where r: "r = (create, data)" by (cases r)
  from Cons.prems(2) r consider
      (now) "m \<in> set (calls (chat create data msgs))"
    | (later) "m \<in> set (run_calls rs (messages (chat create data msgs)))"
    by auto
  then show ?case
  proof cases
    case now
    then obtain s where "m = trim (append_user msgs (classify s))"
      using chat_calls by blast
    with Cons.prems(1) show ?thesis
      by (cases msgs) (simp_all add: length_trim hd_trim append_user_props)
  next
    case later
    from Cons.prems(1) have "messages (chat create data msgs) \<noteq> []"
      and "hd (messages (chat create data msgs)) = hd msgs"
      using chat_keeps_head by blast+
    with Cons.IH [OF _ later] show ?thesis by simp
  qed
qed

section \<open>The claims\<close>

text \<open>The definitions that evaluate the handler on a concrete request.\<close>

lemmas eval_defs =
  chat_def dict_get_def classify_def startswith_def trim_def slice_last_def append_user_def
  try_reply_def reply_text_def mock_reply_def mock_error_def mock_response_def strip_def
  isspace_def
  initial_messages_def Let_def

text \<open>
  Claim C1, as stated: every request whose \<open>message\<close> field is absent or empty is answered
  with the 400 error \<open>No message provided\<close>. It fails for a body that is not a JSON object,
  here \<open>null\<close>, which has no \<open>message\<close> field: \<open>data.get\<close> raises \<open>AttributeError\<close> and
  the 400 response is not produced.
\<close>

theorem missing_input_null_body_counterexample:
  "chat (mock_reply (ascii ''ok'')) JNull initial_messages =
     \<lparr>response = Unhandled AttributeError, messages = initial_messages, calls = []\<rparr> \<and>
   response (chat (mock_reply (ascii ''ok'')) JNull initial_messages)
     \<noteq> Http (Error (ascii ''No message provided'')) 400"
  by (simp add: chat_def dict_get_def)

text \<open>
  Claim C1, amended. When the request body is a JSON object whose \<open>message\<close> field is
  absent, \<open>null\<close> or the empty string, \<open>chat\<close> answers with status 400 and the error body
  \<open>No message provided\<close>; the transcript is left as it was (so its length is unchanged)
  and no call to the completion service is made. When the body is not a JSON object, the
  transcript is left as it was and no call is made either.
\<close>

theorem missing_input_rejected:
  "(map_of kvs (ascii ''message'') = None \<or>
    map_of kvs (ascii ''message'') = Some JNull \<or>
    map_of kvs (ascii ''message'') = Some (JString []) \<longrightarrow>
      response (chat create (JObject kvs) msgs) = Http (Error (ascii ''No message provided'')) 400 \<and>
      messages (chat create (JObject kvs) msgs) = msgs \<and>
      length (messages (chat create (JObject kvs) msgs)) = length msgs \<and>
      calls (chat create (JObject kvs) msgs) = []) \<and>
   ((\<forall>kvs'. data \<noteq> JObject kvs') \<longrightarrow>
      messages (chat create data msgs) = msgs \<and>
      length (messages (chat create data msgs)) = length msgs \<and>
      calls (chat create data msgs) = [])"
proof (intro conjI impI)
  assume a: "map_of kvs (ascii ''message'') = None \<or>
    map_of kvs (ascii ''message'') = Some JNull \<or>
    map_of kvs (ascii ''message'') = Some (JString [])"
  then have "\<exists>v. dict_get (JObject kvs) (ascii ''message'') = Inr v \<and> \<not> truthy v"
    by (auto simp add: dict_get_def simp del: ascii_simps)
  then obtain v where "dict_get (JObject kvs) (ascii ''message'') = Inr v" and "\<not> truthy v"
    by blast
  then have c: "chat create (JObject kvs) msgs =
     \<lparr>response = Http (Error (ascii ''No message provided'')) 400, messages = msgs, calls = []\<rparr>"
    by (rule chat_falsy)
  from c show "response (chat create (JObject kvs) msgs) = Http (Error (ascii ''No message provided'')) 400"
    by simp
  from c show "messages (chat create (JObject kvs) msgs) = msgs" by simp
  from c show "length (messages (chat create (JObject kvs) msgs)) = length msgs" by simp
  from c show "calls (chat create (JObject kvs) msgs) = []" by simp
next
  assume "\<forall>kvs'. data \<noteq> JObject kvs'"
  then have c: "chat create data msgs =
      \<lparr>response = Unhandled AttributeError, messages = msgs, calls = []\<rparr>"
    by (rule chat_not_dict)
  from c show "messages (chat create data msgs) = msgs" by simp
  from c show "length (messages (chat create data msgs)) = length msgs" by simp
  from c show "calls (chat create data msgs) = []" by simp
qed

theorem missing_input_rejected_witness:
  "response (chat (mock_reply (ascii ''ok'')) (JObject [(ascii ''message'', JString [])]) initial_messages)
     = Http (Error (ascii ''No message provided'')) 400 \<and>
   messages (chat (mock_reply (ascii ''ok'')) (JObject [(ascii ''message'', JString [])]) initial_messages)
     = initial_messages \<and>
   calls (chat (mock_reply (ascii ''ok'')) (JObject [(ascii ''message'', JString [])]) initial_messages) = [] \<and>
   response (chat (mock_reply (ascii ''ok'')) (JObject [(ascii ''message'', JNull)]) initial_messages)
     = Http (Error (ascii ''No message provided'')) 400 \<and>
   response (chat (mock_reply (ascii ''ok'')) (JObject []) initial_messages)
     = Http (Error (ascii ''No message provided'')) 400 \<and>
   messages (chat (mock_reply (ascii ''ok'')) (JObject []) initial_messages) = initial_messages \<and>
   messages (chat (mock_reply (ascii ''ok'')) (JInt 7) initial_messages) = initial_messages \<and>
   calls (chat (mock_reply (ascii ''ok'')) (JInt 7) initial_messages) = []"
  using missing_input_rejected [of "[(ascii ''message'', JString [])]" "mock_reply (ascii ''ok'')" initial_messages "JInt 7"]
    missing_input_rejected [of "[(ascii ''message'', JNull)]" "mock_reply (ascii ''ok'')" initial_messages "JInt 7"]
    missing_input_rejected [of "[]" "mock_reply (ascii ''ok'')" initial_messages "JInt 7"]
  by simp

text \<open>
  Claim C2. For an input string that starts with \<open>http\<close> exactly one call is made, and the
  user message that ends the transcript sent has the two-part content: the fixed text part
  and one image part whose URL is the input itself. For any other input string, every
  transcript sent ends with a user message whose content is the input string as it is;
  when the string is not empty exactly one call is made (an empty string is rejected before
  anything is sent).
\<close>

theorem classification_sent:
  assumes "dict_get data (ascii ''message'') = Inr (JString s)"
  shows "(startswith s (ascii ''http'') \<longrightarrow>
            (\<exists>m. calls (chat create data msgs) = [m] \<and>
                 last m = \<lparr>role = User, content = Parts [TextPart image_prompt, ImageUrlPart s]\<rparr>)) \<and>
         (\<not> startswith s (ascii ''http'') \<longrightarrow>
            (\<forall>m \<in> set (calls (chat create data msgs)). last m = \<lparr>role = User, content = Text s\<rparr>) \<and>
            (s \<noteq> [] \<longrightarrow> length (calls (chat create data msgs)) = 1))"
proof -
  have sent: "last (trim (append_user msgs c)) = \<lparr>role = User, content = c\<rparr>" for c
    by (simp add: last_trim append_user_props)
  have one: "calls (chat create data msgs) = [trim (append_user msgs (classify s))]" if "s \<noteq> []"
    using assms that
    by (cases "try_reply (create (trim (append_user msgs (classify s))))")
       (simp_all add: chat_failure chat_success)
  have none: "calls (chat create data msgs) = []" if "s = []"
    using assms that by (simp add: chat_falsy)
  have ne: "s \<noteq> []" if "startswith s (ascii ''http'')"
    using that by (auto simp add: startswith_def)
  show ?thesis
  proof (cases "s = []")
    case True
    with none ne show ?thesis by auto
  next
    case False
    with one sent show ?thesis by (simp add: classify_def)
  qed
qed

theorem classification_sent_witness:
  "content (last (hd (calls (chat (mock_error [])
      (JObject [(ascii ''message'', JString (ascii ''https://example.com/cat.png''))]) initial_messages))))
     = Parts [TextPart image_prompt, ImageUrlPart (ascii ''https://example.com/cat.png'')] \<and>
   startswith (ascii ''https://example.com/cat.png'') (ascii ''http'') \<and>
   content (last (hd (calls (chat (mock_error [])
      (JObject [(ascii ''message'', JString (ascii ''hello''))]) initial_messages))))
     = Text (ascii ''hello'') \<and>
   \<not> startswith (ascii ''hello'') (ascii ''http'') \<and>
   length (calls (chat (mock_error [])
      (JObject [(ascii ''message'', JString (ascii ''hello''))]) initial_messages)) = 1"
  using classification_sent [of "JObject [(ascii ''message'', JString (ascii ''https://example.com/cat.png''))]"
      "ascii ''https://example.com/cat.png''" "mock_error []" initial_messages]
    classification_sent [of "JObject [(ascii ''message'', JString (ascii ''hello''))]"
      "ascii ''hello''" "mock_error []" initial_messages]
  by (simp add: eval_defs)

text \<open>
  Claim C3, as stated: a transcript of more than 6 messages is collapsed to exactly 2
  messages. It fails on a transcript of 7 messages, which the trim turns into 6.
\<close>

theorem trim_to_two_counterexample:
  "length (initial_messages @ replicate 6 \<lparr>role = User, content = Text (ascii ''hi'')\<rparr>) > 6 \<and>
   length (trim (initial_messages @ replicate 6 \<lparr>role = User, content = Text (ascii ''hi'')\<rparr>)) \<noteq> 2"
  by (simp add: length_trim initial_messages_def)

text \<open>
  Claim C3, amended: a transcript of more than 6 messages is collapsed to exactly 6
  messages, namely message 0 followed by the last 5 messages, in their order.
\<close>

theorem trim_to_six:
  assumes "length msgs > 6"
  shows "trim msgs = hd msgs # drop (length msgs - 5) msgs \<and> length (trim msgs) = 6 \<and>
         trim msgs ! 0 = msgs ! 0 \<and>
         (\<forall>i<5. trim msgs ! Suc i = msgs ! (length msgs - 5 + i))"
proof -
  from assms have ne: "msgs \<noteq> []" by auto
  have "trim msgs = hd msgs # drop (length msgs - 5) msgs"
    using assms by (rule trim_long)
  moreover have "length (trim msgs) = 6"
    using assms by (simp add: length_trim)
  moreover have "trim msgs ! 0 = msgs ! 0"
    using assms ne by (simp add: trim_long hd_conv_nth)
  moreover have "\<forall>i<5. trim msgs ! Suc i = msgs ! (length msgs - 5 + i)"
    using assms by (simp add: trim_long)
  ultimately show ?thesis by blast
qed

theorem trim_to_six_witness:
  "length (initial_messages @ replicate 6 \<lparr>role = User, content = Text (ascii ''hi'')\<rparr>) > 6 \<and>
   length (trim (initial_messages @ replicate 6 \<lparr>role = User, content = Text (ascii ''hi'')\<rparr>)) = 6 \<and>
   trim (initial_messages @ replicate 6 \<lparr>role = User, content = Text (ascii ''hi'')\<rparr>) ! 0
     = \<lparr>role = System, content = Text system_prompt\<rparr>"
  using trim_to_six [of "initial_messages @ replicate 6 \<lparr>role = User, content = Text (ascii ''hi'')\<rparr>"]
  by (simp add: initial_messages_def)

text \<open>
  Claim C4. Trimming the seven messages \<open>[S, t1, t2, t3, t4, t5, t6]\<close> gives exactly
  \<open>[S, t2, t3, t4, t5, t6]\<close>.
\<close>

theorem trim_seven:
  "trim [S, t1, t2, t3, t4, t5, t6] = [S, t2, t3, t4, t5, t6]"
  by (simp add: trim_def slice_last_def)

text \<open>
  Claim C5. Start from the initial transcript, which holds the system message alone, and
  let any sequence of requests be handled (successful ones in particular; the statement
  holds whatever the responses are). Every transcript that comes out of a trim step, which
  is the one handed to the completion service, has at most 6 messages, and its message 0 is
  the system message of the start, with role \<open>system\<close>. So is message 0 of the transcript
  that the sequence leaves behind: it is never removed nor changed.
\<close>

theorem window_invariant:
  "(\<forall>m \<in> set (run_calls rs initial_messages).
      length m \<le> 6 \<and> m \<noteq> [] \<and> hd m = \<lparr>role = System, content = Text system_prompt\<rparr> \<and>
      role (hd m) = System) \<and>
   run rs initial_messages \<noteq> [] \<and>
   hd (run rs initial_messages) = \<lparr>role = System, content = Text system_prompt\<rparr> \<and>
   role (hd (run rs initial_messages)) = System"
proof -
  have ne: "initial_messages \<noteq> []"
    and h: "hd initial_messages = \<lparr>role = System, content = Text system_prompt\<rparr>"
    by (simp_all add: initial_messages_def)
  have calls: "length m \<le> 6 \<and> m \<noteq> [] \<and> hd m = \<lparr>role = System, content = Text system_prompt\<rparr> \<and>
      role (hd m) = System" if "m \<in> set (run_calls rs initial_messages)" for m
  proof -
    from run_calls_props [OF ne that] h
    have "2 \<le> length m" "length m \<le> 6" "hd m = \<lparr>role = System, content = Text system_prompt\<rparr>"
      by simp_all
    then show ?thesis by auto
  qed
  from run_keeps_head [OF ne, of rs] h
  have "run rs initial_messages \<noteq> []"
    "hd (run rs initial_messages) = \<lparr>role = System, content = Text system_prompt\<rparr>"
    by simp_all
  with calls show ?thesis by simp
qed

theorem window_invariant_witness:
  "run_responses [hi_request, hi_request, hi_request, hi_request] initial_messages =
     [Http (Reply (ascii ''ok'')) 200, Http (Reply (ascii ''ok'')) 200,
      Http (Reply (ascii ''ok'')) 200, Http (Reply (ascii ''ok'')) 200] \<and>
   length (run_calls [hi_request, hi_request, hi_request, hi_request] initial_messages) = 4 \<and>
   last (run_calls [hi_request, hi_request, hi_request, hi_request] initial_messages)
     \<in> set (run_calls [hi_request, hi_request, hi_request, hi_request] initial_messages) \<and>
   length (last (run_calls [hi_request, hi_request, hi_request, hi_request] initial_messages)) = 6 \<and>
   hd (last (run_calls [hi_request, hi_request, hi_request, hi_request] initial_messages))
     = \<lparr>role = System, content = Text system_prompt\<rparr> \<and>
   length (run [hi_request, hi_request, hi_request, hi_request] initial_messages) = 7 \<and>
   hd (run [hi_request, hi_request, hi_request, hi_request] initial_messages)
     = \<lparr>role = System, content = Text system_prompt\<rparr>"
  using window_invariant [of "[hi_request, hi_request, hi_request, hi_request]"]
  by (simp add: hi_request_def eval_defs)

text \<open>
  Claim C6. When the service returns a response whose first choice carries the text \<open>t\<close>,
  \<open>chat\<close> answers 200 with the reply \<open>strip t\<close> and appends the assistant message with
  exactly that content to the transcript sent. \<open>strip t\<close> is \<open>t\<close> without a run of white space
  at each end, and neither begins nor ends with white space. The reply
  \<open>hello\<close> between two spaces on each side yields \<open>hello\<close>.
\<close>

theorem success_reply_stripped:
  assumes "dict_get data (ascii ''message'') = Inr (JString s)" and "s \<noteq> []"
    and "create (trim (append_user msgs (classify s))) = Returns (Some (Some t # rest))"
  shows "response (chat create data msgs) = Http (Reply (strip t)) 200 \<and>
         messages (chat create data msgs) =
           trim (append_user msgs (classify s)) @ [\<lparr>role = Assistant, content = Text (strip t)\<rparr>] \<and>
         (\<exists>l r. t = l @ strip t @ r \<and> (\<forall>c\<in>set l. isspace c) \<and> (\<forall>c\<in>set r. isspace c)) \<and>
         (strip t \<noteq> [] \<longrightarrow> \<not> isspace (hd (strip t)) \<and> \<not> isspace (last (strip t)))"
proof -
  from assms(3) have "try_reply (create (trim (append_user msgs (classify s)))) = Inr (strip t)"
    by (simp add: try_reply_def reply_text_def)
  with assms(1,2) have "chat create data msgs =
     \<lparr>response = Http (Reply (strip t)) 200,
      messages = trim (append_user msgs (classify s)) @ [\<lparr>role = Assistant, content = Text (strip t)\<rparr>],
      calls = [trim (append_user msgs (classify s))]\<rparr>"
    by (rule chat_success)
  then show ?thesis
    using strip_decomp [of t] strip_ends [of t] by simp
qed

theorem success_reply_stripped_witness:
  "dict_get (JObject [(ascii ''message'', JString (ascii ''hi''))]) (ascii ''message'')
     = Inr (JString (ascii ''hi'')) \<and>
   mock_reply (ascii ''  hello  '') (trim (append_user initial_messages (classify (ascii ''hi''))))
     = Returns (Some (Some (ascii ''  hello  '') # [])) \<and>
   response (chat (mock_reply (ascii ''  hello  ''))
       (JObject [(ascii ''message'', JString (ascii ''hi''))]) initial_messages)
     = Http (Reply (ascii ''hello'')) 200 \<and>
   messages (chat (mock_reply (ascii ''  hello  ''))
       (JObject [(ascii ''message'', JString (ascii ''hi''))]) initial_messages)
     = [\<lparr>role = System, content = Text system_prompt\<rparr>,
        \<lparr>role = User, content = Text (ascii ''hi'')\<rparr>,
        \<lparr>role = Assistant, content = Text (ascii ''hello'')\<rparr>]"
  using success_reply_stripped [of "JObject [(ascii ''message'', JString (ascii ''hi''))]"
      "ascii ''hi''" "mock_reply (ascii ''  hello  '')" initial_messages "ascii ''  hello  ''" "[]"]
  by (simp add: eval_defs)

text \<open>
  Claim C7. Let the request carry a non-empty string, so that the service is called. When
  \<open>create\<close> raises an exception, or returns a malformed response (\<open>choices\<close> is \<open>None\<close>,
  \<open>choices\<close> is empty, or the first \<open>content\<close> is \<open>None\<close>), \<open>chat\<close> answers 500 with the text
  of the exception as the error body. Whenever the service does not return a first choice
  with a text, the answer is such a 500 error, the handler has called \<open>create\<close> exactly once,
  the transcript is the one handed to that call, with no assistant message added, and its
  last message is the user message of this request.
\<close>

theorem upstream_failure_reported:
  assumes get: "dict_get data (ascii ''message'') = Inr (JString s)" and s: "s \<noteq> []"
  shows
    "(create (trim (append_user msgs (classify s))) = Raises e \<longrightarrow>
        response (chat create data msgs) = Http (Error e) 500) \<and>
     (create (trim (append_user msgs (classify s))) = Returns None \<longrightarrow>
        response (chat create data msgs) =
          Http (Error (39 # ascii ''NoneType'' @ 39 # ascii '' object is not subscriptable'')) 500) \<and>
     (create (trim (append_user msgs (classify s))) = Returns (Some []) \<longrightarrow>
        response (chat create data msgs) = Http (Error (ascii ''list index out of range'')) 500) \<and>
     (create (trim (append_user msgs (classify s))) = Returns (Some (None # rest)) \<longrightarrow>
        response (chat create data msgs) =
          Http (Error (39 # ascii ''NoneType'' @ 39 # ascii '' object has no attribute '' @
                       39 # ascii ''strip'' @ [39])) 500) \<and>
     ((\<forall>t r. create (trim (append_user msgs (classify s))) \<noteq> Returns (Some (Some t # r))) \<longrightarrow>
        (\<exists>d. response (chat create data msgs) = Http (Error d) 500) \<and>
        calls (chat create data msgs) = [trim (append_user msgs (classify s))] \<and>
        messages (chat create data msgs) = trim (append_user msgs (classify s)) \<and>
        last (messages (chat create data msgs)) = \<lparr>role = User, content = classify s\<rparr>)"
proof -
  have fail: "chat create data msgs =
     \<lparr>response = Http (Error d) 500, messages = trim (append_user msgs (classify s)),
      calls = [trim (append_user msgs (classify s))]\<rparr>"
    if "try_reply (create (trim (append_user msgs (classify s)))) = Inl d" for d
    using get s that by (rule chat_failure)
  have 1: "response (chat create data msgs) = Http (Error e) 500"
    if "create (trim (append_user msgs (classify s))) = Raises e"
    using fail [of e] that by (simp add: try_reply_cases del: ascii_simps)
  have 2: "response (chat create data msgs) =
          Http (Error (39 # ascii ''NoneType'' @ 39 # ascii '' object is not subscriptable'')) 500"
    if "create (trim (append_user msgs (classify s))) = Returns None"
    using fail [of "39 # ascii ''NoneType'' @ 39 # ascii '' object is not subscriptable''"] that
    by (simp add: try_reply_cases del: ascii_simps)
  have 3: "response (chat create data msgs) = Http (Error (ascii ''list index out of range'')) 500"
    if "create (trim (append_user msgs (classify s))) = Returns (Some [])"
    using fail [of "ascii ''list index out of range''"] that
    by (simp add: try_reply_cases del: ascii_simps)
  have 4: "response (chat create data msgs) =
          Http (Error (39 # ascii ''NoneType'' @ 39 # ascii '' object has no attribute '' @
                       39 # ascii ''strip'' @ [39])) 500"
    if "create (trim (append_user msgs (classify s))) = Returns (Some (None # rest))"
    using fail [of "39 # ascii ''NoneType'' @ 39 # ascii '' object has no attribute '' @
                       39 # ascii ''strip'' @ [39]"] that
    by (simp add: try_reply_cases del: ascii_simps)
  have 5: "(\<exists>d. response (chat create data msgs) = Http (Error d) 500) \<and>
        calls (chat create data msgs) = [trim (append_user msgs (classify s))] \<and>
        messages (chat create data msgs) = trim (append_user msgs (classify s)) \<and>
        last (messages (chat create data msgs)) = \<lparr>role = User, content = classify s\<rparr>"
    if "\<forall>t r. create (trim (append_user msgs (classify s))) \<noteq> Returns (Some (Some t # r))"
  proof -
    from try_reply_no_text [OF that] obtain d
      where "try_reply (create (trim (append_user msgs (classify s)))) = Inl d" by blast
    then have "chat create data msgs =
       \<lparr>response = Http (Error d) 500, messages = trim (append_user msgs (classify s)),
        calls = [trim (append_user msgs (classify s))]\<rparr>"
      by (rule fail)
    then show ?thesis by (simp add: last_trim append_user_props)
  qed
  from 1 2 3 4 5 show ?thesis by blast
qed

theorem upstream_failure_reported_witness:
  "response (chat (mock_error (ascii ''timeout''))
       (JObject [(ascii ''message'', JString (ascii ''hi''))]) initial_messages)
     = Http (Error (ascii ''timeout'')) 500 \<and>
   messages (chat (mock_error (ascii ''timeout''))
       (JObject [(ascii ''message'', JString (ascii ''hi''))]) initial_messages)
     = [\<lparr>role = System, content = Text system_prompt\<rparr>,
        \<lparr>role = User, content = Text (ascii ''hi'')\<rparr>] \<and>
   length (calls (chat (mock_error (ascii ''timeout''))
       (JObject [(ascii ''message'', JString (ascii ''hi''))]) initial_messages)) = 1 \<and>
   response (chat (mock_response None)
       (JObject [(ascii ''message'', JString (ascii ''hi''))]) initial_messages)
     = Http (Error (39 # ascii ''NoneType'' @ 39 # ascii '' object is not subscriptable'')) 500 \<and>
   messages (chat (mock_response None)
       (JObject [(ascii ''message'', JString (ascii ''hi''))]) initial_messages)
     = [\<lparr>role = System, content = Text system_prompt\<rparr>,
        \<lparr>role = User, content = Text (ascii ''hi'')\<rparr>] \<and>
   response (chat (mock_response (Some []))
       (JObject [(ascii ''message'', JString (ascii ''hi''))]) initial_messages)
     = Http (Error (ascii ''list index out of range'')) 500 \<and>
   messages (chat (mock_response (Some []))
       (JObject [(ascii ''message'', JString (ascii ''hi''))]) initial_messages)
     = [\<lparr>role = System, content = Text system_prompt\<rparr>,
        \<lparr>role = User, content = Text (ascii ''hi'')\<rparr>] \<and>
   response (chat (mock_response (Some [None]))
       (JObject [(ascii ''message'', JString (ascii ''hi''))]) initial_messages)
     = Http (Error (39 # ascii ''NoneType'' @ 39 # ascii '' object has no attribute '' @
                    39 # ascii ''strip'' @ [39])) 500 \<and>
   messages (chat (mock_response (Some [None]))
       (JObject [(ascii ''message'', JString (ascii ''hi''))]) initial_messages)
     = [\<lparr>role = System, content = Text system_prompt\<rparr>,
        \<lparr>role = User, content = Text (ascii ''hi'')\<rparr>]"
  using upstream_failure_reported [of "JObject [(ascii ''message'', JString (ascii ''hi''))]"
      "ascii ''hi''" "mock_error (ascii ''timeout'')" initial_messages "ascii ''timeout''" "[]"]
    upstream_failure_reported [of "JObject [(ascii ''message'', JString (ascii ''hi''))]"
      "ascii ''hi''" "mock_response None" initial_messages "[]" "[]"]
    upstream_failure_reported [of "JObject [(ascii ''message'', JString (ascii ''hi''))]"
      "ascii ''hi''" "mock_response (Some [])" initial_messages "[]" "[]"]
    upstream_failure_reported [of "JObject [(ascii ''message'', JString (ascii ''hi''))]"
      "ascii ''hi''" "mock_response (Some [None])" initial_messages "[]" "[]"]
  by (simp add: eval_defs)

text \<open>The values that Python takes for false, and what a true value can never produce.\<close>

lemma falsy_values:
  "\<not> truthy v \<longleftrightarrow>
     v \<in> {JNull, JString [], JInt 0, JFloat (FFinite 0), JBool False, JArray [], JObject []}"
proof (cases v)
  case (JFloat f)
  then show ?thesis by (cases f) auto
qed auto

lemma chat_truthy_not_400:
  assumes "dict_get data (ascii ''message'') = Inr v" and "truthy v"
  shows "response (chat create data msgs) \<noteq> Http (Error (ascii ''No message provided'')) 400"
proof (cases "\<exists>s. v = JString s")
  case True
  then obtain s where v: "v = JString s" by blast
  with assms have s: "s \<noteq> []" by simp
  show ?thesis
  proof (cases "try_reply (create (trim (append_user msgs (classify s))))")
    case (Inl e)
    with assms v s show ?thesis by (simp add: chat_failure del: ascii_simps)
  next
    case (Inr t)
    with assms v s show ?thesis by (simp add: chat_success del: ascii_simps)
  qed
next
  case False
  with assms show ?thesis by (simp add: chat_not_str del: ascii_simps)
qed

text \<open>
  Claim C8, as stated: the 400 error \<open>No message provided\<close> is returned if and only if the
  value of the \<open>message\<close> field is false, an absent field counting as false. It fails for a
  body that is not a JSON object, here the empty list, where the field is absent:
  \<open>data.get\<close> raises \<open>AttributeError\<close> and the 400 response is not produced.
\<close>

theorem missing_input_array_body_counterexample:
  "chat (mock_reply (ascii ''ok'')) (JArray []) initial_messages =
     \<lparr>response = Unhandled AttributeError, messages = initial_messages, calls = []\<rparr> \<and>
   response (chat (mock_reply (ascii ''ok'')) (JArray []) initial_messages)
     \<noteq> Http (Error (ascii ''No message provided'')) 400"
  by (simp add: chat_def dict_get_def)

text \<open>
  Claim C8, amended. \<open>chat\<close> answers with the 400 error \<open>No message provided\<close> if and only
  if the body is a JSON object and the value of its \<open>message\<close> field (\<open>None\<close> when the field
  is absent) is false in Python; the false values are \<open>None\<close>, the empty string, the integer
  and the float zero, \<open>False\<close>, the empty list and the empty dictionary, which is more than
  absent or empty string. For a JSON object whose \<open>message\<close> value is true and not a string
  the handler stops with \<open>AttributeError\<close> at \<open>startswith\<close>, before anything is appended:
  the transcript is unchanged and no call is made.
\<close>

theorem missing_input_iff_falsy:
  "(response (chat create data msgs) = Http (Error (ascii ''No message provided'')) 400 \<longleftrightarrow>
      (\<exists>kvs. data = JObject kvs \<and>
         \<not> truthy (case map_of kvs (ascii ''message'') of None \<Rightarrow> JNull | Some x \<Rightarrow> x))) \<and>
   (\<not> truthy v \<longleftrightarrow>
      v \<in> {JNull, JString [], JInt 0, JFloat (FFinite 0), JBool False, JArray [], JObject []}) \<and>
   (data = JObject kvs \<and>
    v = (case map_of kvs (ascii ''message'') of None \<Rightarrow> JNull | Some x \<Rightarrow> x) \<and>
    truthy v \<and> (\<forall>s. v \<noteq> JString s) \<longrightarrow>
      chat create data msgs =
        \<lparr>response = Unhandled AttributeError, messages = msgs, calls = []\<rparr>)"
proof (intro conjI)
  show "response (chat create data msgs) = Http (Error (ascii ''No message provided'')) 400 \<longleftrightarrow>
      (\<exists>kvs. data = JObject kvs \<and>
         \<not> truthy (case map_of kvs (ascii ''message'') of None \<Rightarrow> JNull | Some x \<Rightarrow> x))"
  proof (cases "\<exists>kvs. data = JObject kvs")
    case True
    then obtain kvs where d: "data = JObject kvs" by blast
    define w where "w = (case map_of kvs (ascii ''message'') of None \<Rightarrow> JNull | Some x \<Rightarrow> x)"
    have get: "dict_get data (ascii ''message'') = Inr w"
      by (simp add: d w_def dict_get_def del: ascii_simps)
    have "response (chat create data msgs) = Http (Error (ascii ''No message provided'')) 400 \<longleftrightarrow>
        \<not> truthy w"
    proof (cases "truthy w")
      case True
      with get show ?thesis using chat_truthy_not_400 by blast
    next
      case False
      with get show ?thesis by (simp add: chat_falsy del: ascii_simps)
    qed
    with d show ?thesis by (simp add: w_def del: ascii_simps)
  next
    case False
    then have "chat create data msgs =
        \<lparr>response = Unhandled AttributeError, messages = msgs, calls = []\<rparr>"
      by (intro chat_not_dict) blast
    with False show ?thesis by simp
  qed
next
  show "\<not> truthy v \<longleftrightarrow>
      v \<in> {JNull, JString [], JInt 0, JFloat (FFinite 0), JBool False, JArray [], JObject []}"
    by (rule falsy_values)
next
  show "data = JObject kvs \<and>
    v = (case map_of kvs (ascii ''message'') of None \<Rightarrow> JNull | Some x \<Rightarrow> x) \<and>
    truthy v \<and> (\<forall>s. v \<noteq> JString s) \<longrightarrow>
      chat create data msgs =
        \<lparr>response = Unhandled AttributeError, messages = msgs, calls = []\<rparr>"
  proof (intro impI, elim conjE)
    assume d: "data = JObject kvs"
      and v: "v = (case map_of kvs (ascii ''message'') of None \<Rightarrow> JNull | Some x \<Rightarrow> x)"
      and t: "truthy v" and n: "\<forall>s. v \<noteq> JString s"
    from d v have "dict_get data (ascii ''message'') = Inr v"
      by (simp add: dict_get_def del: ascii_simps)
    then show "chat create data msgs =
        \<lparr>response = Unhandled AttributeError, messages = msgs, calls = []\<rparr>"
      using t n by (rule chat_not_str)
  qed
qed

theorem missing_input_iff_falsy_witness:
  "response (chat (mock_reply (ascii ''ok'')) (JObject [(ascii ''message'', JInt 0)]) initial_messages)
     = Http (Error (ascii ''No message provided'')) 400 \<and>
   \<not> truthy (JInt 0) \<and>
   response (chat (mock_reply (ascii ''ok'')) (JObject [(ascii ''message'', JArray [])]) initial_messages)
     = Http (Error (ascii ''No message provided'')) 400 \<and>
   truthy (JInt 5) \<and>
   chat (mock_reply (ascii ''ok'')) (JObject [(ascii ''message'', JInt 5)]) initial_messages
     = \<lparr>response = Unhandled AttributeError, messages = initial_messages, calls = []\<rparr> \<and>
   truthy (JBool True) \<and>
   chat (mock_reply (ascii ''ok'')) (JObject [(ascii ''message'', JBool True)]) initial_messages
     = \<lparr>response = Unhandled AttributeError, messages = initial_messages, calls = []\<rparr>"
  using missing_input_iff_falsy [of "mock_reply (ascii ''ok'')" "JObject [(ascii ''message'', JInt 0)]"
      initial_messages "JInt 0" "[(ascii ''message'', JInt 0)]"]
    missing_input_iff_falsy [of "mock_reply (ascii ''ok'')" "JObject [(ascii ''message'', JArray [])]"
      initial_messages "JArray []" "[(ascii ''message'', JArray [])]"]
    missing_input_iff_falsy [of "mock_reply (ascii ''ok'')" "JObject [(ascii ''message'', JInt 5)]"
      initial_messages "JInt 5" "[(ascii ''message'', JInt 5)]"]
    missing_input_iff_falsy [of "mock_reply (ascii ''ok'')" "JObject [(ascii ''message'', JBool True)]"
      initial_messages "JBool True" "[(ascii ''message'', JBool True)]"]
  by simp

text \<open>
  Claim C9. In an invocation of \<open>chat\<close> on a transcript that a sequence of requests has
  produced from the initial one, a transcript handed to the completion service has at
  least 2 and at most 6 messages, and its last message is the user message that this
  invocation built from the request's string.
\<close>

theorem call_transcript_bounds:
  assumes "m \<in> set (calls (chat create data (run rs initial_messages)))"
  shows "2 \<le> length m \<and> length m \<le> 6 \<and>
         (\<exists>s. dict_get data (ascii ''message'') = Inr (JString s) \<and>
              last m = \<lparr>role = User, content = classify s\<rparr>)"
proof -
  have "initial_messages \<noteq> []" by (simp add: initial_messages_def)
  then have ne: "run rs initial_messages \<noteq> []"
    using run_keeps_head by blast
  from chat_calls [OF assms] obtain s
    where get: "dict_get data (ascii ''message'') = Inr (JString s)"
      and m: "m = trim (append_user (run rs initial_messages) (classify s))"
    by blast
  from m ne have "2 \<le> length m" "length m \<le> 6"
    by (cases "run rs initial_messages"; simp add: length_trim append_user_props)+
  moreover from m have "last m = \<lparr>role = User, content = classify s\<rparr>"
    by (simp add: last_trim append_user_props)
  ultimately show ?thesis using get by blast
qed

theorem call_transcript_bounds_witness:
  "hd (calls (chat (mock_error (ascii ''timeout'')) (JObject [(ascii ''message'', JString (ascii ''hi''))])
        (run [hi_request, hi_request, hi_request] initial_messages)))
     \<in> set (calls (chat (mock_error (ascii ''timeout'')) (JObject [(ascii ''message'', JString (ascii ''hi''))])
        (run [hi_request, hi_request, hi_request] initial_messages))) \<and>
   length (hd (calls (chat (mock_error (ascii ''timeout'')) (JObject [(ascii ''message'', JString (ascii ''hi''))])
        (run [hi_request, hi_request, hi_request] initial_messages)))) = 6 \<and>
   last (hd (calls (chat (mock_error (ascii ''timeout'')) (JObject [(ascii ''message'', JString (ascii ''hi''))])
        (run [hi_request, hi_request, hi_request] initial_messages))))
     = \<lparr>role = User, content = Text (ascii ''hi'')\<rparr> \<and>
   hd (calls (chat (mock_error (ascii ''timeout'')) (JObject [(ascii ''message'', JString (ascii ''hi''))])
        (run [] initial_messages)))
     \<in> set (calls (chat (mock_error (ascii ''timeout'')) (JObject [(ascii ''message'', JString (ascii ''hi''))])
        (run [] initial_messages))) \<and>
   length (hd (calls (chat (mock_error (ascii ''timeout'')) (JObject [(ascii ''message'', JString (ascii ''hi''))])
        (run [] initial_messages)))) = 2"
  using call_transcript_bounds [of
      "hd (calls (chat (mock_error (ascii ''timeout'')) (JObject [(ascii ''message'', JString (ascii ''hi''))])
        (run [hi_request, hi_request, hi_request] initial_messages)))"
      "mock_error (ascii ''timeout'')" "JObject [(ascii ''message'', JString (ascii ''hi''))]"
      "[hi_request, hi_request, hi_request]"]
    call_transcript_bounds [of
      "hd (calls (chat (mock_error (ascii ''timeout'')) (JObject [(ascii ''message'', JString (ascii ''hi''))])
        (run [] initial_messages)))"
      "mock_error (ascii ''timeout'')" "JObject [(ascii ''message'', JString (ascii ''hi''))]" "[]"]
  by (simp add: hi_request_def eval_defs)

text \<open>
  Three answered requests bring the transcript to 7 messages; a fourth request whose call
  fails leaves 6.
\<close>

lemma failed_request_shrinks:
  "response (chat (mock_error (ascii ''timeout'')) (JObject [(ascii ''message'', JString (ascii ''hi''))])
       (run [hi_request, hi_request, hi_request] initial_messages))
     = Http (Error (ascii ''timeout'')) 500 \<and>
   length (messages (chat (mock_error (ascii ''timeout'')) (JObject [(ascii ''message'', JString (ascii ''hi''))])
       (run [hi_request, hi_request, hi_request] initial_messages))) = 6 \<and>
   length (run [hi_request, hi_request, hi_request] initial_messages) = 7"
  by (simp add: hi_request_def eval_defs)

text \<open>
  Claim C10. On the failure path the transcript afterwards is the one before with the user
  message appended when that has at most 6 messages; otherwise it is message 0, the last 4
  messages of the transcript before and the user message, that is, the messages from index 1
  up to the length minus 5 are dropped and nothing else changes. A transcript of more than
  6 messages therefore gets shorter, and such a failed request occurs in a run from the
  initial transcript.
\<close>

theorem failure_frame:
  "(dict_get data (ascii ''message'') = Inr (JString s) \<and> s \<noteq> [] \<and>
    try_reply (create (trim (append_user msgs (classify s)))) = Inl e \<longrightarrow>
      (length msgs < 6 \<longrightarrow>
         messages (chat create data msgs) = msgs @ [\<lparr>role = User, content = classify s\<rparr>]) \<and>
      (6 \<le> length msgs \<longrightarrow>
         messages (chat create data msgs) =
           hd msgs # drop (length msgs - 4) msgs @ [\<lparr>role = User, content = classify s\<rparr>] \<and>
         length (messages (chat create data msgs)) = 6) \<and>
      (6 < length msgs \<longrightarrow> length (messages (chat create data msgs)) < length msgs)) \<and>
   (\<exists>rs create' data' e'.
      response (chat create' data' (run rs initial_messages)) = Http (Error e') 500 \<and>
      length (messages (chat create' data' (run rs initial_messages)))
        < length (run rs initial_messages))"
proof -
  have general:
    "dict_get data (ascii ''message'') = Inr (JString s) \<and> s \<noteq> [] \<and>
     try_reply (create (trim (append_user msgs (classify s)))) = Inl e \<longrightarrow>
      (length msgs < 6 \<longrightarrow>
         messages (chat create data msgs) = msgs @ [\<lparr>role = User, content = classify s\<rparr>]) \<and>
      (6 \<le> length msgs \<longrightarrow>
         messages (chat create data msgs) =
           hd msgs # drop (length msgs - 4) msgs @ [\<lparr>role = User, content = classify s\<rparr>] \<and>
         length (messages (chat create data msgs)) = 6) \<and>
      (6 < length msgs \<longrightarrow> length (messages (chat create data msgs)) < length msgs)"
  proof (intro impI, elim conjE)
    assume get: "dict_get data (ascii ''message'') = Inr (JString s)" and s: "s \<noteq> []"
      and f: "try_reply (create (trim (append_user msgs (classify s)))) = Inl e"
    have m: "messages (chat create data msgs) = trim (append_user msgs (classify s))"
      using get s f by (simp add: chat_failure del: ascii_simps)
    have len: "length (messages (chat create data msgs)) = (if 6 \<le> length msgs then 6 else Suc (length msgs))"
      using m by (simp add: length_trim append_user_props)
    have short: "messages (chat create data msgs) = msgs @ [\<lparr>role = User, content = classify s\<rparr>]"
      if "length msgs < 6"
      using m that by (simp add: trim_short append_user_props) (simp add: append_user_def)
    have long: "messages (chat create data msgs) =
           hd msgs # drop (length msgs - 4) msgs @ [\<lparr>role = User, content = classify s\<rparr>]"
      if l: "6 \<le> length msgs"
    proof -
      from l have ne: "msgs \<noteq> []" by auto
      from l have "trim (append_user msgs (classify s)) =
          hd (append_user msgs (classify s)) #
            drop (length (append_user msgs (classify s)) - 5) (append_user msgs (classify s))"
        by (intro trim_long) (simp add: append_user_props)
      also have "hd (append_user msgs (classify s)) = hd msgs"
        using ne by (simp add: append_user_props)
      also have "length (append_user msgs (classify s)) - 5 = length msgs - 4"
        using l by (simp add: append_user_props)
      also have "drop (length msgs - 4) (append_user msgs (classify s)) =
          drop (length msgs - 4) msgs @ [\<lparr>role = User, content = classify s\<rparr>]"
        by (simp add: append_user_def)
      finally show ?thesis using m by simp
    qed
    from short long len show
      "(length msgs < 6 \<longrightarrow>
         messages (chat create data msgs) = msgs @ [\<lparr>role = User, content = classify s\<rparr>]) \<and>
       (6 \<le> length msgs \<longrightarrow>
         messages (chat create data msgs) =
           hd msgs # drop (length msgs - 4) msgs @ [\<lparr>role = User, content = classify s\<rparr>] \<and>
         length (messages (chat create data msgs)) = 6) \<and>
       (6 < length msgs \<longrightarrow> length (messages (chat create data msgs)) < length msgs)"
      by simp
  qed
  have "response (chat (mock_error (ascii ''timeout'')) (JObject [(ascii ''message'', JString (ascii ''hi''))])
           (run [hi_request, hi_request, hi_request] initial_messages))
         = Http (Error (ascii ''timeout'')) 500 \<and>
       length (messages (chat (mock_error (ascii ''timeout''))
           (JObject [(ascii ''message'', JString (ascii ''hi''))])
           (run [hi_request, hi_request, hi_request] initial_messages)))
         < length (run [hi_request, hi_request, hi_request] initial_messages)"
    using failed_request_shrinks by simp
  then have shrink: "\<exists>rs create' data' e'.
      response (chat create' data' (run rs initial_messages)) = Http (Error e') 500 \<and>
      length (messages (chat create' data' (run rs initial_messages)))
        < length (run rs initial_messages)"
    by blast
  from general shrink show ?thesis by (rule conjI)
qed

theorem failure_frame_witness:
  "dict_get (JObject [(ascii ''message'', JString (ascii ''hi''))]) (ascii ''message'')
     = Inr (JString (ascii ''hi'')) \<and>
   try_reply (mock_error (ascii ''timeout'')
     (trim (append_user (run [hi_request, hi_request, hi_request] initial_messages)
        (classify (ascii ''hi''))))) = Inl (ascii ''timeout'') \<and>
   6 < length (run [hi_request, hi_request, hi_request] initial_messages) \<and>
   messages (chat (mock_error (ascii ''timeout'')) (JObject [(ascii ''message'', JString (ascii ''hi''))])
       (run [hi_request, hi_request, hi_request] initial_messages))
     = [\<lparr>role = System, content = Text system_prompt\<rparr>,
        \<lparr>role = User, content = Text (ascii ''hi'')\<rparr>,
        \<lparr>role = Assistant, content = Text (ascii ''ok'')\<rparr>,
        \<lparr>role = User, content = Text (ascii ''hi'')\<rparr>,
        \<lparr>role = Assistant, content = Text (ascii ''ok'')\<rparr>,
        \<lparr>role = User, content = Text (ascii ''hi'')\<rparr>] \<and>
   length initial_messages < 6 \<and>
   messages (chat (mock_error (ascii ''timeout'')) (JObject [(ascii ''message'', JString (ascii ''hi''))])
       initial_messages)
     = initial_messages @ [\<lparr>role = User, content = Text (ascii ''hi'')\<rparr>]"
  using failure_frame [of "JObject [(ascii ''message'', JString (ascii ''hi''))]" "ascii ''hi''"
      "mock_error (ascii ''timeout'')" "run [hi_request, hi_request, hi_request] initial_messages"
      "ascii ''timeout''", THEN conjunct1]
    failure_frame [of "JObject [(ascii ''message'', JString (ascii ''hi''))]" "ascii ''hi''"
      "mock_error (ascii ''timeout'')" initial_messages "ascii ''timeout''", THEN conjunct1]
  by (simp add: hi_request_def eval_defs)

end
